theory Spec2Isabelle
  imports Complex_Main "HOL-Library.Multiset"
begin

section \<open>JavaScript values used by the handlers\<close>

text \<open>
  A JavaScript number is either \<open>NaN\<close> or a value. The handlers only divide and multiply
  by non-zero literals, so doubles are read as the reals they denote (rounding and the two
  infinities are outside the model).
\<close>

datatype jsnum = NaN | Num real

definition num_div :: "jsnum \<Rightarrow> real \<Rightarrow> jsnum" where
  \<comment> \<open>\<open>x / c\<close> for a non-zero literal \<open>c\<close>; \<open>NaN / c\<close> is \<open>NaN\<close>.\<close>
  "num_div x c = (case x of NaN \<Rightarrow> NaN | Num a \<Rightarrow> Num (a / c))"

text \<open>
  \<open>s.split(sep)\<close> for a one-character separator: the pieces between the separators, the
  empty pieces included; the empty string gives one empty piece.
\<close>

fun split_on :: "char \<Rightarrow> string \<Rightarrow> string list" where
  "split_on c [] = [[]]"
| "split_on c (x # xs) =
     (if x = c then [] # split_on c xs
      else (case split_on c xs of
              [] \<Rightarrow> [[x]]
            | w # ws \<Rightarrow> (x # w) # ws))"

text \<open>
  Array destructuring \<open>const [a, b] = parts\<close>: a position past the end of the array is
  \<open>undefined\<close>, here \<open>None\<close>.
\<close>

fun element :: "'a list \<Rightarrow> nat \<Rightarrow> 'a option" where
  "element [] i = None"
| "element (x # xs) 0 = Some x"
| "element (x # xs) (Suc i) = element xs i"

definition falsy :: "string option \<Rightarrow> bool" where
  \<comment> \<open>\<open>!v\<close> for a value that is a string or \<open>undefined\<close>: only \<open>undefined\<close> and \<open>''\<close> are falsy.\<close>
  "falsy v = (case v of None \<Rightarrow> True | Some s \<Rightarrow> s = [])"

section \<open>Failures and the effects of a handler\<close>

text \<open>
  \<open>AppError message statusCode\<close> is the operational error the source constructs with
  \<open>new AppError(message, statusCode)\<close>; \<open>Unmarked\<close> is any other failure (a rejected
  database call, an error raised by a library middleware).
\<close>

datatype failure = AppError string nat | Unmarked string

text \<open>
  What a handler does to the outside, in the order it does it: hand a failure to the
  \<open>next\<close> continuation, issue a query to the tour collection, or send a JSON response
  with a status code.
\<close>

datatype ('q, 'r) effect = Next failure | Query 'q | Respond nat 'r

text \<open>
  Modelled from the spec: \<open>utils/catchAsync.js\<close> is not among the sources. The spec (section 5)
  says every handler is wrapped so that a failure occurring while the handler is suspended on a
  data-layer call is routed to the error normalizer. \<open>catchAsync awaited k\<close> is the rest \<open>k\<close>
  of a wrapped handler after \<open>await\<close>: a rejection goes to \<open>next\<close> and the rest does not run.
\<close>

definition catchAsync :: "failure + 'a \<Rightarrow> ('a \<Rightarrow> ('q, 'r) effect list) \<Rightarrow> ('q, 'r) effect list" where
  "catchAsync awaited k = (case awaited of Inl e \<Rightarrow> [Next e] | Inr v \<Rightarrow> k v)"

section \<open>Tour documents\<close>

text \<open>
  The fields of a tour document that the handlers of the source read. An \<open>ObjectId\<close> is a
  number here, a date is its count of milliseconds since 1970-01-01T00:00:00Z, a location is
  its \<open>(longitude, latitude)\<close> pair.
\<close>

record tour =
  ident :: nat
  name :: string
  difficulty :: string
  ratingsAverage :: real
  ratingsQuantity :: real
  price :: real
  startDates :: "int list"
  startLocation :: "real \<times> real"

section \<open>The alias middleware\<close>

text \<open>
  \<open>req.query\<close> as parsed by the framework: a key maps to a string, a list or a nested
  object.
\<close>

datatype qvalue = QStr string | QList "qvalue list" | QObj "(string \<times> qvalue) list"

datatype json =
    JNull
  | JBool bool
  | JNum real
  | JStr string
  | JArr "json list"
  | JObj "(string \<times> json) list"

text \<open>
  The parts of a request that the source touches. \<open>jsonTyped\<close> says that the request has a
  body whose content type is JSON, \<open>rawBody\<close> is that body as sent (a \<open>char\<close> is a byte),
  \<open>body\<close> is \<open>req.body\<close> (\<open>None\<close> while no parser has set it).
\<close>

record request =
  originalUrl :: string
  query :: "string \<rightharpoonup> qvalue"
  params :: "string \<rightharpoonup> string"
  jsonTyped :: bool
  rawBody :: string
  body :: "json option"
  requestTime :: "string option"

text \<open>
  \<open>aliasTopTours\<close> assigns three keys of \<open>req.query\<close> and calls \<open>next()\<close>: the result is the
  request handed on.
\<close>

definition aliasTopTours :: "request \<Rightarrow> request" where
  "aliasTopTours req =
     req\<lparr>query := (query req)
            (''limit'' \<mapsto> QStr ''5'',
             ''sort'' \<mapsto> QStr ''-ratingsAverage,price'',
             ''fields'' \<mapsto> QStr ''name,price,ratingsAverage,summary,difficulty'')\<rparr>"

section \<open>Geo radius search\<close>

text \<open>
  The filter \<open>{ startLocation: { $geoWithin: { $centerSphere: [[lng, lat], radius] } } }\<close>:
  the two coordinates are the strings cut out of the path parameter (or \<open>undefined\<close>), the
  radius is a number.
\<close>

record sphere_filter =
  centerLng :: "string option"
  centerLat :: "string option"
  radius :: jsnum

record within_body =
  status :: string
  results :: nat
  tours_data :: "tour list"

definition coordinates_message :: string where
  "coordinates_message = ''Please provide latitude and longitude in the format lat,lng.''"

text \<open>
  \<open>getToursWithin\<close>. \<open>to_number\<close> is JavaScript's conversion of a string to a number (applied
  by \<open>/\<close> to the path parameter \<open>distance\<close>), \<open>db_find\<close> is \<open>Tour.find\<close> on the collection: it
  answers a filter with documents or rejects. The call of \<open>next\<close> in the source is not followed
  by \<open>return\<close>, so the effects after it are appended, not skipped.
\<close>

definition getToursWithin ::
  "(string \<Rightarrow> jsnum) \<Rightarrow> (sphere_filter \<Rightarrow> failure + tour list) \<Rightarrow>
     string \<Rightarrow> string \<Rightarrow> string \<Rightarrow> (sphere_filter, within_body) effect list" where
  "getToursWithin to_number db_find distance latlng unit =
     (let parts = split_on CHR '','' latlng;
          lat = element parts 0;
          lng = element parts 1;
          r = (if unit = ''mi'' then num_div (to_number distance) 3963.2
               else num_div (to_number distance) 6378.1);
          q = \<lparr>centerLng = lng, centerLat = lat, radius = r\<rparr>
      in (if falsy lat \<or> falsy lng then [Next (AppError coordinates_message 400)] else [])
         @ [Query q]
         @ catchAsync (db_find q)
             (\<lambda>tours. [Respond 200
                \<lparr>status = ''success'', results = length tours, tours_data = tours\<rparr>]))"

section \<open>Geo distances\<close>

text \<open>
  Documents as the database returns them from a pipeline: an ordered list of fields.
\<close>

datatype bson =
    BId nat
  | BStr string
  | BNum real
  | BDate int
  | BArr "bson list"
  | BDoc "(string \<times> bson) list"

type_synonym document = "(string \<times> bson) list"

definition tour_document :: "tour \<Rightarrow> document" where
  "tour_document t =
     [(''_id'', BId (ident t)),
      (''name'', BStr (name t)),
      (''difficulty'', BStr (difficulty t)),
      (''ratingsAverage'', BNum (ratingsAverage t)),
      (''ratingsQuantity'', BNum (ratingsQuantity t)),
      (''price'', BNum (price t)),
      (''startDates'', BArr (map BDate (startDates t))),
      (''startLocation'',
         BDoc [(''type'', BStr ''Point''),
               (''coordinates'', BArr [BNum (fst (startLocation t)), BNum (snd (startLocation t))])])]"

text \<open>
  The \<open>$geoNear\<close> stage of the source: \<open>near\<close> is a point with numeric coordinates,
  \<open>distanceField\<close> names the field added to each document, \<open>distanceMultiplier\<close> scales the
  distance. \<open>meters\<close> is the database's distance on the sphere, in meters, between the point
  and a document's start location (both as \<open>(longitude, latitude)\<close>). The stage rejects a
  point whose coordinates are not numbers or lie outside the valid longitude and latitude
  ranges, and returns the documents nearest first.
\<close>

record near_stage =
  nearLng :: jsnum
  nearLat :: jsnum
  distanceField :: string
  distanceMultiplier :: real

definition geoNear ::
  "(real \<times> real \<Rightarrow> real \<times> real \<Rightarrow> real) \<Rightarrow> near_stage \<Rightarrow> tour list \<Rightarrow> failure + document list" where
  "geoNear meters st ts =
     (case (nearLng st, nearLat st) of
        (Num x, Num y) \<Rightarrow>
          if - 180 \<le> x \<and> x \<le> 180 \<and> - 90 \<le> y \<and> y \<le> 90
          then Inr (map (\<lambda>t. tour_document t
                               @ [(distanceField st,
                                   BNum (meters (x, y) (startLocation t) * distanceMultiplier st))])
                      (sort_key (\<lambda>t. meters (x, y) (startLocation t)) ts))
          else Inl (Unmarked ''$geoNear: point out of bounds'')
      | _ \<Rightarrow> Inl (Unmarked ''$geoNear: point must only contain numeric elements''))"

text \<open>
  A \<open>$project\<close> stage that includes fields: the listed fields are kept, and so is \<open>_id\<close>
  unless the stage excludes it (the monthly plan does, with \<open>_id: 0\<close>; this pipeline does
  not).
\<close>

definition project_fields :: "string list \<Rightarrow> document \<Rightarrow> document" where
  "project_fields keep d = filter (\<lambda>(k, v). k = ''_id'' \<or> k \<in> set keep) d"

definition times_one :: "(string \<Rightarrow> jsnum) \<Rightarrow> string option \<Rightarrow> jsnum" where
  \<comment> \<open>\<open>v * 1\<close> for a string or \<open>undefined\<close>: \<open>undefined\<close> converts to \<open>NaN\<close>.\<close>
  "times_one to_number v = (case v of None \<Rightarrow> NaN | Some s \<Rightarrow> to_number s)"

record distances_body =
  dstatus :: string
  distances_data :: "document list"

definition getDistances ::
  "(string \<Rightarrow> jsnum) \<Rightarrow> (real \<times> real \<Rightarrow> real \<times> real \<Rightarrow> real) \<Rightarrow> tour list \<Rightarrow>
     string \<Rightarrow> string \<Rightarrow> (near_stage, distances_body) effect list" where
  "getDistances to_number meters collection latlng unit =
     (let parts = split_on CHR '','' latlng;
          lat = element parts 0;
          lng = element parts 1;
          multiplier = (if unit = ''mi'' then 0.000621371 else 0.001);
          st = \<lparr>nearLng = times_one to_number lng, nearLat = times_one to_number lat,
                distanceField = ''distance'', distanceMultiplier = multiplier\<rparr>
      in (if falsy lat \<or> falsy lng then [Next (AppError coordinates_message 400)] else [])
         @ [Query st]
         @ catchAsync
             (case geoNear meters st collection of
                Inl e \<Rightarrow> Inl e
              | Inr docs \<Rightarrow> Inr (map (project_fields [''distance'', ''name'']) docs))
             (\<lambda>distances. [Respond 200 \<lparr>dstatus = ''success'', distances_data = distances\<rparr>]))"

text \<open>The queries a handler issued and the responses it sent, in order.\<close>

fun queries :: "('q, 'r) effect list \<Rightarrow> 'q list" where
  "queries [] = []"
| "queries (Query q # es) = q # queries es"
| "queries (e # es) = queries es"

fun responses :: "('q, 'r) effect list \<Rightarrow> (nat \<times> 'r) list" where
  "responses [] = []"
| "responses (Respond c r # es) = (c, r) # responses es"
| "responses (e # es) = responses es"

fun failures :: "('q, 'r) effect list \<Rightarrow> failure list" where
  "failures [] = []"
| "failures (Next e # es) = e # failures es"
| "failures (e # es) = failures es"

section \<open>Statistics rollup\<close>

definition to_upper_char :: "char \<Rightarrow> char" where
  \<comment> \<open>\<open>$toUpper\<close> on one character: the ASCII lower-case letters are raised, the rest is kept.\<close>
  "to_upper_char c =
     (case map_of (zip ''abcdefghijklmnopqrstuvwxyz'' ''ABCDEFGHIJKLMNOPQRSTUVWXYZ'') c of
        None \<Rightarrow> c
      | Some u \<Rightarrow> u)"

definition toUpper :: "string \<Rightarrow> string" where
  "toUpper s = map to_upper_char s"

text \<open>
  The \<open>$group\<close> stage keeps one accumulator per key: the count (\<open>$sum: 1\<close>), the sum of
  \<open>ratingsQuantity\<close>, the sums behind the two \<open>$avg\<close>, and the running \<open>$min\<close> and \<open>$max\<close>
  of \<open>price\<close>.
\<close>

record stats_acc =
  acc_key :: string
  acc_count :: nat
  acc_ratings :: real
  acc_sum_rating :: real
  acc_sum_price :: real
  acc_min_price :: real
  acc_max_price :: real

definition acc_first :: "tour \<Rightarrow> stats_acc" where
  "acc_first t =
     \<lparr>acc_key = toUpper (difficulty t), acc_count = 1, acc_ratings = ratingsQuantity t,
      acc_sum_rating = ratingsAverage t, acc_sum_price = price t,
      acc_min_price = price t, acc_max_price = price t\<rparr>"

definition acc_add :: "stats_acc \<Rightarrow> tour \<Rightarrow> stats_acc" where
  "acc_add a t =
     a\<lparr>acc_count := acc_count a + 1,
       acc_ratings := acc_ratings a + ratingsQuantity t,
       acc_sum_rating := acc_sum_rating a + ratingsAverage t,
       acc_sum_price := acc_sum_price a + price t,
       acc_min_price := min (acc_min_price a) (price t),
       acc_max_price := max (acc_max_price a) (price t)\<rparr>"

fun group_insert :: "tour \<Rightarrow> stats_acc list \<Rightarrow> stats_acc list" where
  "group_insert t [] = [acc_first t]"
| "group_insert t (a # as) =
     (if acc_key a = toUpper (difficulty t) then acc_add a t # as
      else a # group_insert t as)"

definition group_by_difficulty :: "tour list \<Rightarrow> stats_acc list" where
  "group_by_difficulty ts = foldl (\<lambda>as t. group_insert t as) [] ts"

record stats_group =
  group_id :: string
  numTours :: nat
  numRatings :: real
  avgRating :: real
  avgPrice :: real
  minPrice :: real
  maxPrice :: real

definition acc_result :: "stats_acc \<Rightarrow> stats_group" where
  "acc_result a =
     \<lparr>group_id = acc_key a, numTours = acc_count a, numRatings = acc_ratings a,
      avgRating = acc_sum_rating a / real (acc_count a),
      avgPrice = acc_sum_price a / real (acc_count a),
      minPrice = acc_min_price a, maxPrice = acc_max_price a\<rparr>"

text \<open>The pipeline of \<open>getTourStats\<close>: \<open>$match\<close>, \<open>$group\<close>, \<open>$sort\<close>.\<close>

definition tour_stats :: "tour list \<Rightarrow> stats_group list" where
  "tour_stats collection =
     sort_key avgPrice
       (map acc_result
          (group_by_difficulty (filter (\<lambda>t. 4.5 \<le> ratingsAverage t) collection)))"

record stats_body =
  sstatus :: string
  stats :: "stats_group list"

definition getTourStats :: "tour list \<Rightarrow> (unit, stats_body) effect list" where
  "getTourStats collection =
     [Query ()]
     @ catchAsync (Inr (tour_stats collection))
         (\<lambda>st. [Respond 200 \<lparr>sstatus = ''success'', stats = st\<rparr>])"

text \<open>
  The rollup as the specification words it: the members of a tier are the documents rated at
  least 4.5 whose upper-cased difficulty is the tier, and a tier's figures are computed from
  its members.
\<close>

definition tier_members :: "string \<Rightarrow> tour list \<Rightarrow> tour list" where
  "tier_members k ts = filter (\<lambda>t. 4.5 \<le> ratingsAverage t \<and> toUpper (difficulty t) = k) ts"

definition tier_summary :: "string \<Rightarrow> tour list \<Rightarrow> stats_acc" where
  "tier_summary k ms =
     \<lparr>acc_key = k, acc_count = length ms,
      acc_ratings = sum_list (map ratingsQuantity ms),
      acc_sum_rating = sum_list (map ratingsAverage ms),
      acc_sum_price = sum_list (map price ms),
      acc_min_price = Min (set (map price ms)),
      acc_max_price = Max (set (map price ms))\<rparr>"

text \<open>
  The invariant of the \<open>$group\<close> stage: after the documents \<open>ts\<close> the accumulators have
  distinct keys, one for each key that occurs in \<open>ts\<close>, and each holds the figures of the
  documents with its key.
\<close>

definition grouped :: "stats_acc list \<Rightarrow> tour list \<Rightarrow> bool" where
  "grouped as ts \<longleftrightarrow>
     distinct (map acc_key as) \<and>
     set (map acc_key as) = (\<lambda>t. toUpper (difficulty t)) ` set ts \<and>
     (\<forall>a \<in> set as.
        a = tier_summary (acc_key a) (filter (\<lambda>t. toUpper (difficulty t) = acc_key a) ts))"

section \<open>Monthly plan\<close>

text \<open>
  Dates are counts of milliseconds since the epoch. The calendar of a date is the proleptic
  Gregorian one in UTC, which is what \<open>new Date('YYYY-MM-DD')\<close> and \<open>$month\<close> use.
\<close>

definition ms_per_day :: int where
  "ms_per_day = 86400000"

definition days_from_civil :: "int \<Rightarrow> int \<Rightarrow> int \<Rightarrow> int" where
  "days_from_civil y m d =
     (let y' = (if m \<le> 2 then y - 1 else y);
          era = y' div 400;
          yoe = y' - era * 400;
          doy = (153 * (if 2 < m then m - 3 else m + 9) + 2) div 5 + d - 1;
          doe = yoe * 365 + yoe div 4 - yoe div 100 + doy
      in era * 146097 + doe - 719468)"

definition civil_from_days :: "int \<Rightarrow> int \<times> int \<times> int" where
  "civil_from_days z =
     (let z' = z + 719468;
          era = z' div 146097;
          doe = z' mod 146097;
          yoe = (doe - doe div 1460 + doe div 36524 - doe div 146096) div 365;
          doy = doe - (365 * yoe + yoe div 4 - yoe div 100);
          mp = (5 * doy + 2) div 153;
          d = doy - (153 * mp + 2) div 5 + 1;
          m = (if mp < 10 then mp + 3 else mp - 9);
          y = yoe + era * 400
      in (if m \<le> 2 then y + 1 else y, m, d))"

definition date_utc :: "int \<Rightarrow> int \<Rightarrow> int \<Rightarrow> int" where
  \<comment> \<open>\<open>new Date('y-m-d')\<close> for a four-digit year: midnight UTC at the start of that day.\<close>
  "date_utc y m d = days_from_civil y m d * ms_per_day"

definition year_of :: "int \<Rightarrow> int" where
  "year_of date = fst (civil_from_days (date div ms_per_day))"

definition month_of :: "int \<Rightarrow> int" where
  \<comment> \<open>\<open>$month\<close>: the month of a date, 1 for January.\<close>
  "month_of date = fst (snd (civil_from_days (date div ms_per_day)))"

text \<open>\<open>$unwind: '$startDates'\<close>: one row per element of the array, none for an empty array.\<close>

definition unwind_startDates :: "tour list \<Rightarrow> (string \<times> int) list" where
  "unwind_startDates ts = concat (map (\<lambda>t. map (\<lambda>d. (name t, d)) (startDates t)) ts)"

record plan_row =
  numTourStarts :: nat
  tours :: "string list"
  month :: int

fun plan_insert :: "string \<times> int \<Rightarrow> plan_row list \<Rightarrow> plan_row list" where
  "plan_insert (nm, d) [] = [\<lparr>numTourStarts = 1, tours = [nm], month = month_of d\<rparr>]"
| "plan_insert (nm, d) (r # rs) =
     (if month r = month_of d
      then r\<lparr>numTourStarts := numTourStarts r + 1, tours := tours r @ [nm]\<rparr> # rs
      else r # plan_insert (nm, d) rs)"

definition group_by_month :: "(string \<times> int) list \<Rightarrow> plan_row list" where
  \<comment> \<open>\<open>$group\<close> by \<open>$month\<close>, then \<open>$addFields month\<close> and \<open>$project _id: 0\<close>: the key is kept as \<open>month\<close>.\<close>
  "group_by_month rows = foldl (\<lambda>rs row. plan_insert row rs) [] rows"

text \<open>
  The pipeline of \<open>getMonthlyPlan\<close> for the number \<open>year\<close> read from the path, a four-digit
  year (for other values the date strings built from it are not in the ISO format).
\<close>

definition monthly_plan :: "int \<Rightarrow> tour list \<Rightarrow> plan_row list" where
  "monthly_plan year collection =
     take 12
       (sort_key (\<lambda>r. - int (numTourStarts r))
          (group_by_month
             (filter (\<lambda>(nm, d). date_utc year 1 1 \<le> d \<and> d \<le> date_utc year 12 31)
                (unwind_startDates collection))))"

record plan_body =
  pstatus :: string
  plan :: "plan_row list"

definition getMonthlyPlan :: "int \<Rightarrow> tour list \<Rightarrow> (unit, plan_body) effect list" where
  "getMonthlyPlan year collection =
     [Query ()]
     @ catchAsync (Inr (monthly_plan year collection))
         (\<lambda>p. [Respond 200 \<lparr>pstatus = ''success'', plan = p\<rparr>])"

section \<open>The application: middleware stack, routers and the error handler\<close>

text \<open>
  Modelled from the spec: \<open>controllers/errorController.js\<close> and \<open>utils/appError.js\<close> are not
  among the sources. By sections 3 and 4.4 of the spec an operational error carries a message
  and a status code and is rendered with them, with status \<open>fail\<close> for a 4xx code and
  \<open>error\<close> otherwise; any other failure is rendered with code 500 and status \<open>error\<close>, its
  message replaced by a generic one outside development; detail is included only in
  development. Database failures that the normalizer re-wraps as operational errors enter
  here as the \<open>AppError\<close> they are re-wrapped to.
\<close>

record envelope =
  e_statusCode :: nat
  e_status :: string
  e_message :: string
  e_detail :: "failure option"

definition globalErrorHandler :: "bool \<Rightarrow> string \<Rightarrow> failure \<Rightarrow> envelope" where
  "globalErrorHandler development generic err =
     (case err of
        AppError msg c \<Rightarrow>
          \<lparr>e_statusCode = c,
           e_status = (if 400 \<le> c \<and> c < 500 then ''fail'' else ''error''),
           e_message = msg,
           e_detail = (if development then Some err else None)\<rparr>
      | Unmarked msg \<Rightarrow>
          \<lparr>e_statusCode = 500,
           e_status = ''error'',
           e_message = (if development then msg else generic),
           e_detail = (if development then Some err else None)\<rparr>)"

text \<open>
  A response of the application: the limiter's refusal with its message, a static file, the
  reply of a router's handler, or the error envelope.
\<close>

datatype 'r http_response =
    TooManyRequests string
  | StaticFile string
  | Handled 'r
  | ErrorResponse envelope

text \<open>A middleware passes the request on, answers it, or hands a failure to \<open>next\<close>.\<close>

datatype 'r step = Pass request | Reply "'r http_response" | Fail failure

fun run :: "(request \<Rightarrow> 'r step) list \<Rightarrow> request \<Rightarrow> 'r step" where
  "run [] req = Pass req"
| "run (m # ms) req =
     (case m req of
        Pass req' \<Rightarrow> run ms req'
      | Reply x \<Rightarrow> Reply x
      | Fail e \<Rightarrow> Fail e)"

record limiter_options =
  max_requests :: nat
  windowMs :: nat
  limit_message :: string

definition limiter :: limiter_options where
  "limiter =
     \<lparr>max_requests = 100, windowMs = 60 * 60 * 1000,
      limit_message = ''Too many requests from this IP, please try again in an hour!''\<rparr>"

definition body_limit :: nat where
  \<comment> \<open>\<open>limit: '10kb'\<close>, in bytes.\<close>
  "body_limit = 10 * 1024"

definition hpp_whitelist :: "string list" where
  "hpp_whitelist =
     [''duration'', ''ratingsQuantity'', ''ratingsAverage'', ''maxGroupSize'', ''difficulty'',
      ''price'']"

text \<open>
  The library middleware the application mounts, as far as the source does not decide their
  behaviour: \<open>rateLimit opts req\<close> says whether the limiter mounted on \<open>/api\<close> refuses the
  request; \<open>parse_json\<close> parses a body; the three sanitizers rewrite the parsed body, query
  and path parameters; \<open>static_file\<close> finds a file of the public directory for the request;
  \<open>clock\<close> is the time of the request as an ISO string.
\<close>

type_synonym parsed = "json option \<times> (string \<rightharpoonup> qvalue) \<times> (string \<rightharpoonup> string)"

record externals =
  rateLimit :: "limiter_options \<Rightarrow> request \<Rightarrow> bool"
  parse_json :: "string \<Rightarrow> json option"
  mongoSanitize :: "parsed \<Rightarrow> parsed"
  xss :: "parsed \<Rightarrow> parsed"
  hpp :: "string list \<Rightarrow> parsed \<Rightarrow> parsed"
  static_file :: "request \<Rightarrow> string option"
  clock :: string

definition on_parsed :: "(parsed \<Rightarrow> parsed) \<Rightarrow> request \<Rightarrow> request" where
  "on_parsed f req =
     (case f (body req, query req, params req) of
        (b, q, p) \<Rightarrow> req\<lparr>body := b, query := q, params := p\<rparr>)"

definition limiter_middleware :: "externals \<Rightarrow> request \<Rightarrow> 'r step" where
  "limiter_middleware X req =
     (if rateLimit X limiter req then Reply (TooManyRequests (limit_message limiter))
      else Pass req)"

text \<open>
  \<open>express.json({ limit: '10kb' })\<close>: a request without a JSON body is passed on with an
  empty object as its body; a JSON body longer than the limit, or one that does not parse, is
  a failure; otherwise the parsed value becomes \<open>req.body\<close>.
\<close>

definition express_json :: "externals \<Rightarrow> request \<Rightarrow> 'r step" where
  "express_json X req =
     (if \<not> jsonTyped req then Pass (req\<lparr>body := Some (JObj [])\<rparr>)
      else if body_limit < length (rawBody req) then Fail (Unmarked ''request entity too large'')
      else (case parse_json X (rawBody req) of
              None \<Rightarrow> Fail (Unmarked ''invalid JSON'')
            | Some j \<Rightarrow> Pass (req\<lparr>body := Some j\<rparr>)))"

definition static_middleware :: "externals \<Rightarrow> request \<Rightarrow> 'r step" where
  "static_middleware X req =
     (case static_file X req of None \<Rightarrow> Pass req | Some f \<Rightarrow> Reply (StaticFile f))"

text \<open>
  The global middleware in the order the source mounts them: security headers, development
  logging, the limiter, the body parser, the three sanitizers, static files, the logging test
  middleware and the one that stamps the request time.
\<close>

definition global_middlewares :: "externals \<Rightarrow> (request \<Rightarrow> 'r step) list" where
  "global_middlewares X =
     [Pass,
      Pass,
      limiter_middleware X,
      express_json X,
      (\<lambda>req. Pass (on_parsed (mongoSanitize X) req)),
      (\<lambda>req. Pass (on_parsed (xss X) req)),
      (\<lambda>req. Pass (on_parsed (hpp X hpp_whitelist) req)),
      static_middleware X,
      Pass,
      (\<lambda>req. Pass (req\<lparr>requestTime := Some (clock X)\<rparr>))]"

text \<open>
  A mounted router either has no route for the request, or its handler answers, or its
  handler hands a failure to \<open>next\<close>. The routers themselves are not among the sources.
\<close>

datatype 'r routed = NoMatch | Sent 'r | Raised failure

record 'r routers =
  tourRouter :: "request \<Rightarrow> 'r routed"
  userRouter :: "request \<Rightarrow> 'r routed"
  reviewRouter :: "request \<Rightarrow> 'r routed"

definition unmatched :: "request \<Rightarrow> failure" where
  \<comment> \<open>The handler of \<open>app.all('*')\<close>: the failure it hands to \<open>next\<close>.\<close>
  "unmatched req = AppError (''Can't find '' @ originalUrl req @ '' on this server!'') 404"

definition routes :: "bool \<Rightarrow> string \<Rightarrow> 'r routers \<Rightarrow> request \<Rightarrow> 'r http_response" where
  "routes development generic R req =
     (case tourRouter R req of
        Sent r \<Rightarrow> Handled r
      | Raised e \<Rightarrow> ErrorResponse (globalErrorHandler development generic e)
      | NoMatch \<Rightarrow>
          (case userRouter R req of
             Sent r \<Rightarrow> Handled r
           | Raised e \<Rightarrow> ErrorResponse (globalErrorHandler development generic e)
           | NoMatch \<Rightarrow>
               (case reviewRouter R req of
                  Sent r \<Rightarrow> Handled r
                | Raised e \<Rightarrow> ErrorResponse (globalErrorHandler development generic e)
                | NoMatch \<Rightarrow>
                    ErrorResponse (globalErrorHandler development generic (unmatched req)))))"

definition app ::
  "externals \<Rightarrow> 'r routers \<Rightarrow> bool \<Rightarrow> string \<Rightarrow> request \<Rightarrow> 'r http_response" where
  "app X R development generic req =
     (case run (global_middlewares X) req of
        Pass req' \<Rightarrow> routes development generic R req'
      | Reply x \<Rightarrow> x
      | Fail e \<Rightarrow> ErrorResponse (globalErrorHandler development generic e))"

section \<open>The rate limiter over time\<close>

text \<open>
  The part of an original URL before its query string, which is the path the mount points
  and routes are matched against.
\<close>

definition url_path :: "string \<Rightarrow> string" where
  "url_path url = takeWhile (\<lambda>c. c \<noteq> CHR ''?'') url"

text \<open>
  \<open>app.use('/api', limiter)\<close>: the limiter sees the requests whose path is \<open>/api\<close> or
  starts with \<open>/api/\<close>, letter case ignored as the framework does by default.
\<close>

definition under_api :: "request \<Rightarrow> bool" where
  "under_api req =
     (let p = url_path (originalUrl req)
      in map to_upper_char (take 4 p) = ''/API'' \<and>
         (case drop 4 p of [] \<Rightarrow> True | c # cs \<Rightarrow> c = CHR ''/''))"

text \<open>
  The limiter's memory store, as the library documents it: for each client, keyed by IP, the
  number of requests counted in the current window and the time at which that window ends.
  A request inside the window adds one to the count; a request from a client without a
  current window opens one and counts as its first. \<open>window_end w t\<close> is the end of the
  window opened at time \<open>t\<close> for a window length \<open>w\<close>: \<open>t + w\<close> where each client has a
  window of its own, the next multiple of \<open>w\<close> where the store resets all counters together
  every \<open>w\<close> milliseconds. Times are milliseconds since the limiter was created.
\<close>

type_synonym hit_store = "string \<rightharpoonup> nat \<times> nat"



definition increment ::
  "(nat \<Rightarrow> nat \<Rightarrow> nat) \<Rightarrow> limiter_options \<Rightarrow> hit_store \<Rightarrow> string \<Rightarrow> nat \<Rightarrow> nat \<times> hit_store" where
  "increment window_end opts store ip t =
     (let entry =
            (case store ip of
               None \<Rightarrow> (1, window_end (windowMs opts) t)
             | Some (hits, reset) \<Rightarrow>
                 if t < reset then (hits + 1, reset) else (1, window_end (windowMs opts) t))
      in (fst entry, store(ip \<mapsto> entry)))"






section \<open>Example data\<close>

definition sample_tours :: "tour list" where
  "sample_tours =
     [\<lparr>ident = 1, name = ''The Forest Hiker'', difficulty = ''easy'', ratingsAverage = 4.7,
       ratingsQuantity = 37, price = 397, startDates = [1619341200000, 1626771600000],
       startLocation = (- 115.57, 51.41)\<rparr>,
      \<lparr>ident = 2, name = ''The Sea Explorer'', difficulty = ''Easy'', ratingsAverage = 4.5,
       ratingsQuantity = 23, price = 497, startDates = [1624006800000, 1624870800000],
       startLocation = (- 80.18, 25.78)\<rparr>,
      \<lparr>ident = 3, name = ''The Snow Adventurer'', difficulty = ''difficult'', ratingsAverage = 4.4,
       ratingsQuantity = 13, price = 997, startDates = [1640944800000],
       startLocation = (- 106.82, 39.19)\<rparr>,
      \<lparr>ident = 4, name = ''The City Wanderer'', difficulty = ''medium'', ratingsAverage = 4.9,
       ratingsQuantity = 54, price = 297, startDates = [1615626000000],
       startLocation = (- 73.98, 40.78)\<rparr>]"

definition sample_number :: "string \<Rightarrow> jsnum" where
  \<comment> \<open>The conversion of the few numeric strings the examples use; every other string is \<open>NaN\<close> here.\<close>
  "sample_number s =
     (if s = ''200'' then Num 200
      else if s = ''34.1'' then Num 34.1
      else if s = ''-118.1'' then Num (- 118.1)
      else NaN)"

definition sample_externals :: externals where
  "sample_externals =
     \<lparr>rateLimit = (\<lambda>opts r. False), parse_json = (\<lambda>s. Some JNull), mongoSanitize = (\<lambda>p. p),
      xss = (\<lambda>p. p), hpp = (\<lambda>w p. p), static_file = (\<lambda>r. None),
      clock = ''2021-06-01T00:00:00.000Z''\<rparr>"

definition sample_request :: "string \<Rightarrow> request" where
  "sample_request url =
     \<lparr>originalUrl = url, query = Map.empty, params = Map.empty, jsonTyped = False,
      rawBody = [], body = None, requestTime = None\<rparr>"





section \<open>Properties\<close>

subsection \<open>Auxiliary facts\<close>

lemma falsy_simps: "falsy None" "falsy (Some s) = (s = [])"
  by (simp_all add: falsy_def)

lemma queries_append: "queries (xs @ ys) = queries xs @ queries ys"
  by (induction xs rule: queries.induct) simp_all

lemma queries_catchAsync_respond: "queries (catchAsync a (\<lambda>v. [Respond c (f v)])) = []"
  by (simp add: catchAsync_def split: sum.splits)

lemma queries_getToursWithin:
  "queries (getToursWithin n f d l u) =
     [\<lparr>centerLng = element (split_on CHR '','' l) 1, centerLat = element (split_on CHR '','' l) 0,
       radius = (if u = ''mi'' then num_div (n d) 3963.2 else num_div (n d) 6378.1)\<rparr>]"
  by (simp add: getToursWithin_def Let_def queries_append queries_catchAsync_respond)


lemma project_tour_row:
  "project_fields [''distance'', ''name''] (tour_document t @ [(''distance'', v)]) =
     [(''_id'', BId (ident t)), (''name'', BStr (name t)), (''distance'', v)]"
  by (simp add: project_fields_def tour_document_def)

lemma split_sample_latlng:
  "element (split_on CHR '','' ''34.1,-118.1'') 0 = Some ''34.1'' \<and>
   element (split_on CHR '','' ''34.1,-118.1'') 1 = Some ''-118.1''"
  by simp

subsection \<open>Geo radius search\<close>

text \<open>
  Whenever a coordinate is missing, both geo handlers hand the 400 error to \<open>next\<close> and then
  go on with the query.
\<close>

lemma getToursWithin_missing_coordinate:
  assumes "falsy (element (split_on CHR '','' l) 0) \<or> falsy (element (split_on CHR '','' l) 1)"
  shows "\<exists>q rest. getToursWithin n db d l u = Next (AppError coordinates_message 400) # Query q # rest"
  using assms by (simp add: getToursWithin_def Let_def)

lemma getDistances_missing_coordinate:
  assumes "falsy (element (split_on CHR '','' l) 0) \<or> falsy (element (split_on CHR '','' l) 1)"
  shows "\<exists>q rest. getDistances n m c l u = Next (AppError coordinates_message 400) # Query q # rest"
  using assms by (simp add: getDistances_def Let_def)

text \<open>
  C1. The claim: when the \<open>latlng\<close> parameter does not yield both a latitude and a
  longitude, \<open>getToursWithin\<close> fails with the operational 400 error and halts, issuing no
  geo query and building no 200 response. The code does not halt: for \<open>latlng = 34.1\<close> (no
  longitude) it hands the 400 error to \<open>next\<close>, then issues the query with an undefined
  longitude, and then, if the database answers, sends the 200 response.
\<close>

theorem getToursWithin_does_not_halt:
  "getToursWithin n db ''200'' ''34.1'' ''mi'' =
     Next (AppError ''Please provide latitude and longitude in the format lat,lng.'' 400)
     # Query \<lparr>centerLng = None, centerLat = Some ''34.1'', radius = num_div (n ''200'') 3963.2\<rparr>
     # (case db \<lparr>centerLng = None, centerLat = Some ''34.1'', radius = num_div (n ''200'') 3963.2\<rparr> of
         Inl e \<Rightarrow> [Next e]
       | Inr ts \<Rightarrow> [Respond 200 \<lparr>status = ''success'', results = length ts, tours_data = ts\<rparr>])"
  by (simp add: getToursWithin_def Let_def falsy_simps coordinates_message_def catchAsync_def)

text \<open>
  C2. For every geo-radius request the radius in the filter sent to the collection is the
  distance divided by 3963.2 when the unit is \<open>mi\<close> and by 6378.1 when it is \<open>km\<close>: where
  the distance parameter converts to the number \<open>a\<close> the radius is \<open>a / 3963.2\<close> or
  \<open>a / 6378.1\<close>, and where it converts to \<open>NaN\<close> the radius is \<open>NaN\<close>. With distance 200
  the radius is 200/3963.2 for \<open>mi\<close> and 200/6378.1 for \<open>km\<close>.
\<close>

theorem getToursWithin_radius:
  "(u = ''mi'' \<and> n d = Num a \<longrightarrow>
      map radius (queries (getToursWithin n f d l u)) = [Num (a / 3963.2)]) \<and>
   (u = ''km'' \<and> n d = Num a \<longrightarrow>
      map radius (queries (getToursWithin n f d l u)) = [Num (a / 6378.1)]) \<and>
   ((u = ''mi'' \<or> u = ''km'') \<and> n d = NaN \<longrightarrow>
      map radius (queries (getToursWithin n f d l u)) = [NaN]) \<and>
   (n ''200'' = Num 200 \<longrightarrow>
      map radius (queries (getToursWithin n f ''200'' l ''mi'')) = [Num (200 / 3963.2)] \<and>
      map radius (queries (getToursWithin n f ''200'' l ''km'')) = [Num (200 / 6378.1)])"
  by (auto simp: queries_getToursWithin num_div_def)

theorem getToursWithin_radius_witness:
  "map radius (queries (getToursWithin sample_number (\<lambda>q. Inr []) ''200'' ''34.1,-118.1'' ''mi''))
     = [Num (200 / 3963.2)] \<and>
   map radius (queries (getToursWithin sample_number (\<lambda>q. Inr []) ''200'' ''34.1,-118.1'' ''km''))
     = [Num (200 / 6378.1)]"
proof -
  have h: "sample_number ''200'' = Num 200"
    by (simp add: sample_number_def)
  show ?thesis
    using getToursWithin_radius [where u = "''mi''" and n = sample_number and f = "\<lambda>q. Inr []"
        and d = "''200''" and l = "''34.1,-118.1''" and a = 200] h
    by blast
qed

subsection \<open>Statistics rollup\<close>

lemma acc_key_acc_add: "acc_key (acc_add a t) = acc_key a"
  by (simp add: acc_add_def)

lemma acc_key_acc_first: "acc_key (acc_first t) = toUpper (difficulty t)"
  by (simp add: acc_first_def)

lemma acc_key_tier_summary: "acc_key (tier_summary k ms) = k"
  by (simp add: tier_summary_def)

lemma keys_group_insert:
  "map acc_key (group_insert t as) =
     (if toUpper (difficulty t) \<in> set (map acc_key as) then map acc_key as
      else map acc_key as @ [toUpper (difficulty t)])"
  by (induction as) (auto simp: acc_key_acc_add acc_key_acc_first)

lemma set_group_insert:
  "distinct (map acc_key as) \<Longrightarrow> a' \<in> set (group_insert t as) \<Longrightarrow>
     (a' \<in> set as \<and> acc_key a' \<noteq> toUpper (difficulty t)) \<or>
     (\<exists>a \<in> set as. acc_key a = toUpper (difficulty t) \<and> a' = acc_add a t) \<or>
     (toUpper (difficulty t) \<notin> acc_key ` set as \<and> a' = acc_first t)"
  by (induction as) (auto split: if_splits simp: image_iff)

lemma acc_first_summary: "acc_first t = tier_summary (toUpper (difficulty t)) [t]"
  by (simp add: acc_first_def tier_summary_def)

lemma acc_add_summary:
  assumes "ms \<noteq> []"
  shows "acc_add (tier_summary k ms) t = tier_summary k (ms @ [t])"
proof -
  have ne: "price ` set ms \<noteq> {}" using assms by simp
  have "Min (insert (price t) (price ` set ms)) = min (Min (price ` set ms)) (price t)"
    using ne by (simp add: min.commute)
  moreover have "Max (insert (price t) (price ` set ms)) = max (Max (price ` set ms)) (price t)"
    using ne by (simp add: max.commute)
  ultimately show ?thesis
    by (simp add: acc_add_def tier_summary_def)
qed

lemma grouped_step:
  assumes "grouped as ts"
  shows "grouped (group_insert t as) (ts @ [t])"
proof -
  let ?k = "\<lambda>t. toUpper (difficulty t)"
  from assms have d: "distinct (map acc_key as)"
    and ks: "set (map acc_key as) = ?k ` set ts"
    and sm: "\<And>a. a \<in> set as \<Longrightarrow> a = tier_summary (acc_key a) (filter (\<lambda>t. ?k t = acc_key a) ts)"
    by (auto simp: grouped_def)
  have 1: "distinct (map acc_key (group_insert t as))"
    using d by (simp add: keys_group_insert)
  have 2: "set (map acc_key (group_insert t as)) = ?k ` set (ts @ [t])"
    using ks by (auto simp: keys_group_insert)
  have 3: "a' = tier_summary (acc_key a') (filter (\<lambda>u. ?k u = acc_key a') (ts @ [t]))"
    if "a' \<in> set (group_insert t as)" for a'
  proof -
    from set_group_insert [OF d that]
    consider (old) "a' \<in> set as" "acc_key a' \<noteq> ?k t"
      | (upd) a where "a \<in> set as" "acc_key a = ?k t" "a' = acc_add a t"
      | (new) "?k t \<notin> acc_key ` set as" "a' = acc_first t"
      by blast
    then show ?thesis
    proof cases
      case old
      then show ?thesis using sm [of a'] by auto
    next
      case upd
      let ?ms = "filter (\<lambda>u. ?k u = ?k t) ts"
      have a: "a = tier_summary (?k t) ?ms" using sm [OF upd(1)] upd(2) by simp
      have "?k t \<in> ?k ` set ts" using upd(1,2) ks by force
      then have ne: "?ms \<noteq> []" by (auto simp: filter_empty_conv)
      have "a' = tier_summary (?k t) (?ms @ [t])"
        using upd(3) a acc_add_summary [OF ne] by simp
      moreover have "acc_key a' = ?k t" using upd by (simp add: acc_key_acc_add)
      ultimately show ?thesis by simp
    next
      case new
      then have "?k t \<notin> ?k ` set ts" using ks by simp
      then have "\<forall>u \<in> set ts. ?k u \<noteq> ?k t" by (metis (mono_tags) image_eqI)
      then have "filter (\<lambda>u. ?k u = ?k t) ts = []" by (simp add: filter_empty_conv)
      then show ?thesis using new by (simp add: acc_first_summary acc_key_tier_summary)
    qed
  qed
  show ?thesis unfolding grouped_def using 1 2 3 by blast
qed

lemma grouped_group_by_difficulty: "grouped (group_by_difficulty ts) ts"
proof (induction ts rule: rev_induct)
  case Nil
  then show ?case by (simp add: group_by_difficulty_def grouped_def)
next
  case (snoc t ts)
  then show ?case using grouped_step [of "group_by_difficulty ts" ts t]
    by (simp add: group_by_difficulty_def)
qed

lemma filter_rated_tier:
  "filter (\<lambda>t. toUpper (difficulty t) = k) (filter (\<lambda>t. 4.5 \<le> ratingsAverage t) ts) = tier_members k ts"
  by (simp add: tier_members_def)

lemma set_tour_stats:
  "set (tour_stats ts) = acc_result ` set (group_by_difficulty (filter (\<lambda>t. 4.5 \<le> ratingsAverage t) ts))"
  by (simp add: tour_stats_def)

lemma group_id_acc_result: "group_id (acc_result a) = acc_key a"
  by (simp add: acc_result_def)

lemma mset_ids_tour_stats:
  "mset (map group_id (tour_stats ts)) =
     mset (map acc_key (group_by_difficulty (filter (\<lambda>t. 4.5 \<le> ratingsAverage t) ts)))"
proof -
  have "mset (map group_id (tour_stats ts)) =
          image_mset group_id (mset (map acc_result
             (group_by_difficulty (filter (\<lambda>t. 4.5 \<le> ratingsAverage t) ts))))"
    by (simp add: tour_stats_def)
  then show ?thesis by (simp add: comp_def group_id_acc_result multiset.map_comp)
qed

lemma result_of_summary:
  "acc_result (tier_summary k ms) =
     \<lparr>group_id = k, numTours = length ms,
      numRatings = sum_list (map ratingsQuantity ms),
      avgRating = sum_list (map ratingsAverage ms) / real (length ms),
      avgPrice = sum_list (map price ms) / real (length ms),
      minPrice = Min (set (map price ms)), maxPrice = Max (set (map price ms))\<rparr>"
  by (simp add: acc_result_def tier_summary_def)

lemma tour_stats_group:
  assumes "g \<in> set (tour_stats ts)"
  shows "tier_members (group_id g) ts \<noteq> [] \<and>
         g = acc_result (tier_summary (group_id g) (tier_members (group_id g) ts))"
proof -
  let ?rated = "filter (\<lambda>t. 4.5 \<le> ratingsAverage t) ts"
  let ?as = "group_by_difficulty ?rated"
  have inv: "grouped ?as ?rated" by (rule grouped_group_by_difficulty)
  from assms obtain a where a: "a \<in> set ?as" and ga: "g = acc_result a"
    by (auto simp: set_tour_stats)
  have ka: "group_id g = acc_key a" using ga by (simp add: group_id_acc_result)
  have "a = tier_summary (acc_key a) (filter (\<lambda>t. toUpper (difficulty t) = acc_key a) ?rated)"
    using inv a by (simp add: grouped_def)
  then have as: "a = tier_summary (acc_key a) (tier_members (acc_key a) ts)"
    by (simp only: filter_rated_tier)
  have "acc_key a \<in> (\<lambda>t. toUpper (difficulty t)) ` set ?rated"
    using inv a unfolding grouped_def by (metis image_eqI set_map)
  then obtain t where "t \<in> set ts" "4.5 \<le> ratingsAverage t" "toUpper (difficulty t) = acc_key a"
    by auto
  then have "t \<in> set (tier_members (acc_key a) ts)" by (simp add: tier_members_def)
  then have "tier_members (acc_key a) ts \<noteq> []" by auto
  then show ?thesis using as ga ka by simp
qed

lemma tour_stats_figures:
  assumes "g \<in> set (tour_stats ts)"
  shows "tier_members (group_id g) ts \<noteq> [] \<and>
      numTours g = length (tier_members (group_id g) ts) \<and>
      numRatings g = sum_list (map ratingsQuantity (tier_members (group_id g) ts)) \<and>
      avgRating g = sum_list (map ratingsAverage (tier_members (group_id g) ts))
                      / real (length (tier_members (group_id g) ts)) \<and>
      avgPrice g = sum_list (map price (tier_members (group_id g) ts))
                      / real (length (tier_members (group_id g) ts)) \<and>
      minPrice g = Min (set (map price (tier_members (group_id g) ts))) \<and>
      maxPrice g = Max (set (map price (tier_members (group_id g) ts)))"
proof -
  define ms where "ms = tier_members (group_id g) ts"
  define c where "c = group_id g"
  from tour_stats_group [OF assms]
  have ne: "ms \<noteq> []" and eq: "g = acc_result (tier_summary c ms)"
    by (simp_all add: ms_def c_def)
  have "numTours g = length ms"
    using arg_cong [OF eq, of numTours] by (simp add: result_of_summary)
  moreover have "numRatings g = sum_list (map ratingsQuantity ms)"
    using arg_cong [OF eq, of numRatings] by (simp add: result_of_summary)
  moreover have "avgRating g = sum_list (map ratingsAverage ms) / real (length ms)"
    using arg_cong [OF eq, of avgRating] by (simp add: result_of_summary)
  moreover have "avgPrice g = sum_list (map price ms) / real (length ms)"
    using arg_cong [OF eq, of avgPrice] by (simp add: result_of_summary)
  moreover have "minPrice g = Min (set (map price ms))"
    using arg_cong [OF eq, of minPrice] by (simp add: result_of_summary)
  moreover have "maxPrice g = Max (set (map price ms))"
    using arg_cong [OF eq, of maxPrice] by (simp add: result_of_summary)
  ultimately show ?thesis using ne unfolding ms_def by blast
qed

lemma tour_stats_sample:
  "tour_stats sample_tours =
     [\<lparr>group_id = ''MEDIUM'', numTours = 1, numRatings = 54, avgRating = 4.9, avgPrice = 297,
       minPrice = 297, maxPrice = 297\<rparr>,
      \<lparr>group_id = ''EASY'', numTours = 2, numRatings = 60, avgRating = 4.6, avgPrice = 447,
       minPrice = 397, maxPrice = 497\<rparr>]"
  by (simp add: tour_stats_def sample_tours_def group_by_difficulty_def acc_first_def acc_add_def
      acc_result_def toUpper_def to_upper_char_def)

text \<open>
  C3. For every collection the rollup of \<open>getTourStats\<close> is sorted ascending by average
  price and has exactly one group for each upper-cased difficulty that occurs among the
  documents rated at least 4.5; the members of a group are the documents rated at least 4.5
  with that upper-cased difficulty (none below 4.5 is counted), and the group carries their
  count, the sum of their rating counts, their average rating, and the average, minimum and
  maximum of their prices. The handler answers 200 with this rollup.
\<close>

theorem tour_stats_rollup:
  "sorted (map avgPrice (tour_stats ts)) \<and>
   distinct (map group_id (tour_stats ts)) \<and>
   set (map group_id (tour_stats ts)) =
     (\<lambda>t. toUpper (difficulty t)) ` {t \<in> set ts. 4.5 \<le> ratingsAverage t} \<and>
   (\<forall>g \<in> set (tour_stats ts).
      tier_members (group_id g) ts \<noteq> [] \<and>
      numTours g = length (tier_members (group_id g) ts) \<and>
      numRatings g = sum_list (map ratingsQuantity (tier_members (group_id g) ts)) \<and>
      avgRating g = sum_list (map ratingsAverage (tier_members (group_id g) ts))
                      / real (length (tier_members (group_id g) ts)) \<and>
      avgPrice g = sum_list (map price (tier_members (group_id g) ts))
                      / real (length (tier_members (group_id g) ts)) \<and>
      minPrice g = Min (set (map price (tier_members (group_id g) ts))) \<and>
      maxPrice g = Max (set (map price (tier_members (group_id g) ts)))) \<and>
   getTourStats ts = [Query (), Respond 200 \<lparr>sstatus = ''success'', stats = tour_stats ts\<rparr>]"
proof -
  let ?rated = "filter (\<lambda>t. 4.5 \<le> ratingsAverage t) ts"
  let ?as = "group_by_difficulty ?rated"
  have inv: "grouped ?as ?rated" by (rule grouped_group_by_difficulty)
  have s: "sorted (map avgPrice (tour_stats ts))"
    by (simp add: tour_stats_def)
  have d: "distinct (map group_id (tour_stats ts))"
    using inv mset_ids_tour_stats [of ts]
    by (metis grouped_def mset_eq_imp_distinct_iff)
  have k: "set (map group_id (tour_stats ts)) =
             (\<lambda>t. toUpper (difficulty t)) ` {t \<in> set ts. 4.5 \<le> ratingsAverage t}"
  proof -
    have "set (map group_id (tour_stats ts)) = set (map acc_key ?as)"
      using mset_ids_tour_stats [of ts] by (metis set_mset_mset)
    also have "\<dots> = (\<lambda>t. toUpper (difficulty t)) ` set ?rated"
      using inv by (simp add: grouped_def)
    finally show ?thesis by simp
  qed
  have r: "getTourStats ts = [Query (), Respond 200 \<lparr>sstatus = ''success'', stats = tour_stats ts\<rparr>]"
    by (simp add: getTourStats_def catchAsync_def)
  have every: "\<forall>g \<in> set (tour_stats ts).
      tier_members (group_id g) ts \<noteq> [] \<and>
      numTours g = length (tier_members (group_id g) ts) \<and>
      numRatings g = sum_list (map ratingsQuantity (tier_members (group_id g) ts)) \<and>
      avgRating g = sum_list (map ratingsAverage (tier_members (group_id g) ts))
                      / real (length (tier_members (group_id g) ts)) \<and>
      avgPrice g = sum_list (map price (tier_members (group_id g) ts))
                      / real (length (tier_members (group_id g) ts)) \<and>
      minPrice g = Min (set (map price (tier_members (group_id g) ts))) \<and>
      maxPrice g = Max (set (map price (tier_members (group_id g) ts)))"
    by (rule ballI) (rule tour_stats_figures)
  show ?thesis
    by (rule conjI [OF s conjI [OF d conjI [OF k conjI [OF every r]]]])
qed

theorem tour_stats_rollup_witness:
  "\<lparr>group_id = ''EASY'', numTours = 2, numRatings = 60, avgRating = 4.6, avgPrice = 447,
     minPrice = 397, maxPrice = 497\<rparr> \<in> set (tour_stats sample_tours) \<and>
   length (tier_members ''EASY'' sample_tours) = 2 \<and>
   sum_list (map price (tier_members ''EASY'' sample_tours)) / 2 = 447"
proof -
  let ?g = "\<lparr>group_id = ''EASY'', numTours = 2, numRatings = 60, avgRating = 4.6, avgPrice = 447,
     minPrice = 397, maxPrice = 497\<rparr>"
  have m: "?g \<in> set (tour_stats sample_tours)"
    by (simp add: tour_stats_sample)
  from tour_stats_rollup [of sample_tours]
  have "\<forall>g \<in> set (tour_stats sample_tours).
      tier_members (group_id g) sample_tours \<noteq> [] \<and>
      numTours g = length (tier_members (group_id g) sample_tours) \<and>
      numRatings g = sum_list (map ratingsQuantity (tier_members (group_id g) sample_tours)) \<and>
      avgRating g = sum_list (map ratingsAverage (tier_members (group_id g) sample_tours))
                      / real (length (tier_members (group_id g) sample_tours)) \<and>
      avgPrice g = sum_list (map price (tier_members (group_id g) sample_tours))
                      / real (length (tier_members (group_id g) sample_tours)) \<and>
      minPrice g = Min (set (map price (tier_members (group_id g) sample_tours))) \<and>
      maxPrice g = Max (set (map price (tier_members (group_id g) sample_tours)))"
    by blast
  from bspec [OF this m]
  have "numTours ?g = length (tier_members (group_id ?g) sample_tours)"
    and "avgPrice ?g = sum_list (map price (tier_members (group_id ?g) sample_tours))
                      / real (length (tier_members (group_id ?g) sample_tours))"
    by blast+
  then have "length (tier_members ''EASY'' sample_tours) = 2"
    and "sum_list (map price (tier_members ''EASY'' sample_tours))
           / real (length (tier_members ''EASY'' sample_tours)) = 447"
    by simp_all
  then show ?thesis using m by simp
qed

subsection \<open>Units and geo distances\<close>

lemma failures_append: "failures (xs @ ys) = failures xs @ failures ys"
  by (induction xs rule: failures.induct) simp_all



text \<open>
  C6. The claim says that each returned row contains only the distance and name fields. The
  \<open>$project\<close> stage of the source lists \<open>distance\<close> and \<open>name\<close> and does not exclude
  \<open>_id\<close>, so each row also carries the document's \<open>_id\<close>. As amended: for a request whose
  \<open>latlng\<close> yields a latitude and a longitude that convert to numbers within the valid
  ranges, \<open>getDistances\<close> answers 200 with one row per document, nearest first, and each row
  holds exactly the fields \<open>_id\<close>, \<open>name\<close> and \<open>distance\<close>, the distance being the
  database's distance in meters times 0.000621371 for unit \<open>mi\<close> and times 0.001 otherwise.
\<close>

theorem getDistances_rows:
  assumes "element (split_on CHR '','' latlng) 0 = Some la"
    and "element (split_on CHR '','' latlng) 1 = Some lo"
    and "la \<noteq> []" and "lo \<noteq> []"
    and "n la = Num y" and "n lo = Num x"
    and "- 180 \<le> x" and "x \<le> 180" and "- 90 \<le> y" and "y \<le> 90"
  shows "getDistances n meters ts latlng u =
     [Query \<lparr>nearLng = Num x, nearLat = Num y, distanceField = ''distance'',
             distanceMultiplier = (if u = ''mi'' then 0.000621371 else 0.001)\<rparr>,
      Respond 200 \<lparr>dstatus = ''success'',
        distances_data =
          map (\<lambda>t. [(''_id'', BId (ident t)), (''name'', BStr (name t)),
                    (''distance'', BNum (meters (x, y) (startLocation t)
                                         * (if u = ''mi'' then 0.000621371 else 0.001)))])
            (sort_key (\<lambda>t. meters (x, y) (startLocation t)) ts)\<rparr>]"
  using assms
  by (simp add: getDistances_def Let_def falsy_simps times_one_def geoNear_def catchAsync_def
      project_tour_row comp_def)

theorem getDistances_rows_witness:
  "getDistances sample_number (\<lambda>p q. 1000) (take 1 sample_tours) ''34.1,-118.1'' ''mi'' =
     [Query \<lparr>nearLng = Num (- 118.1), nearLat = Num 34.1, distanceField = ''distance'',
             distanceMultiplier = 0.000621371\<rparr>,
      Respond 200 \<lparr>dstatus = ''success'',
        distances_data =
          [[(''_id'', BId 1), (''name'', BStr ''The Forest Hiker''),
            (''distance'', BNum 0.621371)]]\<rparr>]"
proof -
  have n1: "sample_number ''34.1'' = Num 34.1" and n2: "sample_number ''-118.1'' = Num (- 118.1)"
    by (simp_all add: sample_number_def)
  have b: "- 180 \<le> (- 118.1 :: real)" "(- 118.1 :: real) \<le> 180" "- 90 \<le> (34.1 :: real)"
    "(34.1 :: real) \<le> 90" "''34.1'' \<noteq> []" "''-118.1'' \<noteq> []"
    by simp_all
  have s: "element (split_on CHR '','' ''34.1,-118.1'') 0 = Some ''34.1''"
    "element (split_on CHR '','' ''34.1,-118.1'') 1 = Some ''-118.1''"
    by simp_all
  show ?thesis
    using getDistances_rows [OF s b(5) b(6) n1 n2 b(1) b(2) b(3) b(4),
        of "\<lambda>p q. 1000" "take 1 sample_tours" "''mi''"]
    by (simp add: sample_tours_def)
qed

text \<open>
  The claim as stated fails on a collection of one tour: the row of the response has the
  field \<open>_id\<close> besides \<open>name\<close> and \<open>distance\<close>.
\<close>

theorem getDistances_row_has_id:
  "responses (getDistances sample_number (\<lambda>p q. 1000) (take 1 sample_tours) ''34.1,-118.1'' ''km'') =
     [(200, \<lparr>dstatus = ''success'',
        distances_data =
          [[(''_id'', BId 1), (''name'', BStr ''The Forest Hiker''), (''distance'', BNum 1)]]\<rparr>)] \<and>
   ''_id'' \<notin> {''distance'', ''name''}"
  by (simp add: getDistances_def Let_def falsy_simps times_one_def geoNear_def catchAsync_def
      project_fields_def tour_document_def sample_number_def sample_tours_def)

subsection \<open>Monthly plan\<close>

lemma civil_2021_12_31: "civil_from_days 18992 = (2021, 12, 31)"
  by code_simp

lemma date_2021_01_01: "date_utc 2021 1 1 = 1609459200000"
  by code_simp

lemma date_2021_12_31: "date_utc 2021 12 31 = 1640908800000"
  by code_simp

lemma monthly_plan_length: "length (monthly_plan y ts) \<le> 12"
  by (simp add: monthly_plan_def)

lemma monthly_plan_descending:
  "sorted (map (\<lambda>r. - int (numTourStarts r)) (monthly_plan y ts))"
  unfolding monthly_plan_def take_map [symmetric]
  by (rule sorted_wrt_take) simp

lemma monthly_plan_sample:
  "monthly_plan 2021 sample_tours =
     [\<lparr>numTourStarts = 2, tours = [''The Sea Explorer'', ''The Sea Explorer''], month = 6\<rparr>,
      \<lparr>numTourStarts = 1, tours = [''The Forest Hiker''], month = 4\<rparr>,
      \<lparr>numTourStarts = 1, tours = [''The Forest Hiker''], month = 7\<rparr>,
      \<lparr>numTourStarts = 1, tours = [''The City Wanderer''], month = 3\<rparr>]"
  by code_simp

text \<open>
  C4. The claim: \<open>getMonthlyPlan\<close> keeps exactly the start dates that fall in calendar year
  \<open>Y\<close>. The upper bound of the filter is \<open>new Date('Y-12-31')\<close>, midnight UTC at the start
  of 31 December, so a start date later on that day is dropped although it falls in year \<open>Y\<close>:
  the date 2021-12-31T10:00:00Z (1640944800000 ms) has year 2021 and month 12, and the plan
  for 2021 of a collection whose only start date it is, is empty.
\<close>

theorem monthly_plan_drops_last_day:
  "year_of 1640944800000 = 2021 \<and> month_of 1640944800000 = 12 \<and>
   date_utc 2021 12 31 = 1640908800000 \<and>
   getMonthlyPlan 2021
     [\<lparr>ident = 3, name = ''The Snow Adventurer'', difficulty = ''difficult'', ratingsAverage = 4.5,
       ratingsQuantity = 13, price = 997, startDates = [1640944800000],
       startLocation = (- 106.82, 39.19)\<rparr>]
   = [Query (), Respond 200 \<lparr>pstatus = ''success'', plan = []\<rparr>]"
proof -
  have d: "(1640944800000 :: int) div ms_per_day = 18992"
    by (simp add: ms_per_day_def)
  have y: "year_of 1640944800000 = 2021"
    by (simp add: year_of_def d civil_2021_12_31)
  have m: "month_of 1640944800000 = 12"
    by (simp add: month_of_def d civil_2021_12_31)
  have p: "monthly_plan 2021
     [\<lparr>ident = 3, name = ''The Snow Adventurer'', difficulty = ''difficult'', ratingsAverage = 4.5,
       ratingsQuantity = 13, price = 997, startDates = [1640944800000],
       startLocation = (- 106.82, 39.19)\<rparr>] = []"
    by (simp add: monthly_plan_def)
      (simp add: unwind_startDates_def date_2021_01_01 date_2021_12_31 group_by_month_def)
  show ?thesis
    by (simp only: y m date_2021_12_31 getMonthlyPlan_def p) (simp add: catchAsync_def)
qed

subsection \<open>The limiter in the middleware stack\<close>











subsection \<open>Unmatched routes\<close>

lemma routes_unmatched:
  assumes "tourRouter R req = NoMatch" and "userRouter R req = NoMatch"
    and "reviewRouter R req = NoMatch"
  shows "routes development generic R req =
           ErrorResponse
             \<lparr>e_statusCode = 404, e_status = ''fail'',
              e_message = ''Can't find '' @ originalUrl req @ '' on this server!'',
              e_detail = (if development then Some (unmatched req) else None)\<rparr>"
  using assms by (simp add: routes_def globalErrorHandler_def unmatched_def)






subsection \<open>Body size cap\<close>

lemma rawBody_on_parsed: "rawBody (on_parsed f req) = rawBody req"
  by (simp add: on_parsed_def split: prod.splits)

lemma run_oversized:
  assumes "jsonTyped req" and "body_limit < length (rawBody req)"
  shows "run (global_middlewares X) req =
           (if rateLimit X limiter req then Reply (TooManyRequests (limit_message limiter))
            else Fail (Unmarked ''request entity too large''))"
  using assms by (simp add: global_middlewares_def limiter_middleware_def express_json_def)

lemma run_pass:
  assumes "run (global_middlewares X) req = Pass r"
  shows "(jsonTyped req \<longrightarrow> length (rawBody req) \<le> body_limit) \<and> rawBody r = rawBody req"
proof -
  have nl: "\<not> rateLimit X limiter req"
    using assms by (auto simp: global_middlewares_def limiter_middleware_def)
  show ?thesis
  proof (cases "jsonTyped req \<and> body_limit < length (rawBody req)")
    case True
    then show ?thesis using assms nl by (simp add: run_oversized)
  next
    case False
    then show ?thesis using assms nl
      by (auto simp: global_middlewares_def limiter_middleware_def express_json_def
          static_middleware_def rawBody_on_parsed split: option.splits if_splits)
  qed
qed

text \<open>
  C8. The cap is 10240 bytes. A request whose JSON body is longer never reaches a router:
  unless the limiter has already refused it, the body parser fails it and the answer is the
  error envelope, whatever the routers are. Conversely, whenever the middleware stack hands a
  request on to the routers, its JSON body was at most 10240 bytes long.
\<close>

theorem oversized_body_never_routed:
  "body_limit = 10240 \<and>
   (jsonTyped req \<and> body_limit < length (rawBody req) \<longrightarrow>
      app X (R :: 'r routers) development generic req =
        (if rateLimit X limiter req then TooManyRequests (limit_message limiter)
         else ErrorResponse (globalErrorHandler development generic
                (Unmarked ''request entity too large'')))) \<and>
   (\<forall>r. (run (global_middlewares X) req :: 'r step) = Pass r \<longrightarrow>
      (jsonTyped req \<longrightarrow> length (rawBody req) \<le> body_limit) \<and> rawBody r = rawBody req)"
proof -
  have a: "body_limit = 10240" by (simp add: body_limit_def)
  have b: "jsonTyped req \<and> body_limit < length (rawBody req) \<longrightarrow>
      app X R development generic req =
        (if rateLimit X limiter req then TooManyRequests (limit_message limiter)
         else ErrorResponse (globalErrorHandler development generic
                (Unmarked ''request entity too large'')))"
    by (simp add: app_def run_oversized)
  have c: "\<forall>r. (run (global_middlewares X) req :: 'r step) = Pass r \<longrightarrow>
      (jsonTyped req \<longrightarrow> length (rawBody req) \<le> body_limit) \<and> rawBody r = rawBody req"
    using run_pass by blast
  show ?thesis by (rule conjI [OF a conjI [OF b c]])
qed

theorem oversized_body_never_routed_witness:
  "app sample_externals
       \<lparr>tourRouter = (\<lambda>r. Sent ()), userRouter = (\<lambda>r. Sent ()), reviewRouter = (\<lambda>r. Sent ())\<rparr>
       False ''Something went wrong''
       ((sample_request ''/api/v1/tours'')\<lparr>jsonTyped := True, rawBody := replicate 10241 CHR ''a''\<rparr>)
   = ErrorResponse \<lparr>e_statusCode = 500, e_status = ''error'',
        e_message = ''Something went wrong'', e_detail = None\<rparr>"
  using oversized_body_never_routed [of
       "(sample_request ''/api/v1/tours'')\<lparr>jsonTyped := True, rawBody := replicate 10241 CHR ''a''\<rparr>"
       sample_externals
       "\<lparr>tourRouter = (\<lambda>r. Sent ()), userRouter = (\<lambda>r. Sent ()), reviewRouter = (\<lambda>r. Sent ())\<rparr>"
       False "''Something went wrong''"]
  by (simp add: globalErrorHandler_def body_limit_def sample_externals_def sample_request_def)

subsection \<open>The alias middleware\<close>

text \<open>
  C10. \<open>aliasTopTours\<close> sets the query keys \<open>limit\<close>, \<open>sort\<close> and \<open>fields\<close> to \<open>5\<close>,
  \<open>-ratingsAverage,price\<close> and \<open>name,price,ratingsAverage,summary,difficulty\<close> whatever
  the client supplied for them, leaves every other query key as it was, and changes nothing
  else of the request.
\<close>

theorem aliasTopTours_overwrites:
  "query (aliasTopTours req) ''limit'' = Some (QStr ''5'') \<and>
   query (aliasTopTours req) ''sort'' = Some (QStr ''-ratingsAverage,price'') \<and>
   query (aliasTopTours req) ''fields'' = Some (QStr ''name,price,ratingsAverage,summary,difficulty'') \<and>
   (\<forall>k. k \<notin> {''limit'', ''sort'', ''fields''} \<longrightarrow> query (aliasTopTours req) k = query req k) \<and>
   aliasTopTours req = req\<lparr>query := query (aliasTopTours req)\<rparr>"
  by (simp add: aliasTopTours_def)

theorem aliasTopTours_overwrites_witness:
  "query (aliasTopTours ((sample_request ''/api/v1/tours/top-5-cheap?limit=100&page=2'')
       \<lparr>query := [''limit'' \<mapsto> QStr ''100'', ''page'' \<mapsto> QStr ''2'']\<rparr>)) ''limit''
     = Some (QStr ''5'') \<and>
   query (aliasTopTours ((sample_request ''/api/v1/tours/top-5-cheap?limit=100&page=2'')
       \<lparr>query := [''limit'' \<mapsto> QStr ''100'', ''page'' \<mapsto> QStr ''2'']\<rparr>)) ''page''
     = Some (QStr ''2'')"
  using aliasTopTours_overwrites [of "(sample_request ''/api/v1/tours/top-5-cheap?limit=100&page=2'')
       \<lparr>query := [''limit'' \<mapsto> QStr ''100'', ''page'' \<mapsto> QStr ''2'']\<rparr>"]
  by (simp add: sample_request_def)

subsection \<open>Rate limiting\<close>






lemma increment_expired:
  "store ip = Some (c, r) \<Longrightarrow> \<not> t < r \<Longrightarrow>
     increment W opts store ip t = (1, store(ip \<mapsto> (1, W (windowMs opts) t)))"
  by (simp add: increment_def)




lemma under_api_sample_users: "under_api (sample_request ''/api/v1/users'')"
  by (simp add: under_api_def sample_request_def url_path_def to_upper_char_def)








end
